theory Spec2Isabelle
  imports Main "HOL-Library.Sublist"
begin

section \<open>Rendered elements\<close>

text \<open>
  A JSX expression \<^verbatim>\<open><T a={x} b="y">children</T>\<close> evaluates to an element: the
  element type, the attributes in the order written, and the children. The element type
  is a host tag (\<^verbatim>\<open>div\<close>), the default export of \<^verbatim>\<open>next/image\<close> (imported as
  \<^verbatim>\<open>NextImage\<close> by the wrapper and as \<^verbatim>\<open>Image\<close> by the layout configuration), or
  the fragment \<^verbatim>\<open><>...</>\<close>. An attribute written without a value
  (\<^verbatim>\<open>priority\<close>) is the flag \<open>True\<close>.

  The type \<open>'n\<close> stands for the numbers of the source: the components only hand
  them on, so nothing is assumed of them but that numerals can be written.
\<close>

datatype jsx_type = Host string | NextImage | Fragment

datatype 'n attr =
    Str string
  | Num 'n
  | Flag bool
  | Style "(string \<times> string) list"

datatype 'n node =
    Element jsx_type "(string \<times> 'n attr) list" "'n node list"
  | Text string

fun etype :: "'n node \<Rightarrow> jsx_type option" where
  "etype (Element t as cs) = Some t"
| "etype (Text s) = None"

fun attrs :: "'n node \<Rightarrow> (string \<times> 'n attr) list" where
  "attrs (Element t as cs) = as"
| "attrs (Text s) = []"

fun children :: "'n node \<Rightarrow> 'n node list" where
  "children (Element t as cs) = cs"
| "children (Text s) = []"

definition attr :: "'n node \<Rightarrow> string \<Rightarrow> 'n attr option" where
  "attr e k = map_of (attrs e) k"

section \<open>The Image wrapper component\<close>

text \<open>
  \<^verbatim>\<open>interface ImageProps { src: string; alt: string; width?: number; height?: number }\<close>:
  an optional property is \<open>None\<close> when the caller omits it.
\<close>

record 'n ImageProps =
  src :: string
  alt :: string
  width :: "'n option"
  height :: "'n option"

text \<open>
  \<^verbatim>\<open>function Image({ src, alt, width = 800, height = 600 }: ImageProps)\<close>: the
  destructuring pattern puts the default in place of an omitted dimension, and the body
  returns a \<^verbatim>\<open>div\<close> around one \<^verbatim>\<open>NextImage\<close>.
\<close>

definition Image :: "('n::numeral) ImageProps \<Rightarrow> 'n node" where
  "Image props =
    (let width' = (case width props of None \<Rightarrow> 800 | Some w \<Rightarrow> w);
         height' = (case height props of None \<Rightarrow> 600 | Some h \<Rightarrow> h)
     in Element (Host ''div'')
          [(''style'', Style [(''width'', ''100%''), (''maxWidth'', ''800px'')])]
          [Element NextImage
             [(''src'', Str (src props)),
              (''alt'', Str (alt props)),
              (''width'', Num width'),
              (''height'', Num height'),
              (''style'', Style [(''width'', ''100%''), (''height'', ''auto'')]),
              (''priority'', Flag True)]
             []])"

section \<open>Regular expressions\<close>

text \<open>
  The part of the regular expressions of the language that the build configuration
  uses: single characters, sequence, alternation, \<^verbatim>\<open>?\<close> and the assertion
  \<^verbatim>\<open>$\<close> (without the multiline flag: the end of the input). A
  \<^verbatim>\<open>RegExp\<close> object is its pattern and its \<^verbatim>\<open>i\<close> flag.
\<close>

datatype regex = Chr char | Seq regex regex | Alt regex regex | Opt regex | EndOfInput

record RegExp =
  source :: regex
  ignoreCase :: bool

text \<open>
  Under the \<^verbatim>\<open>i\<close> flag two characters match when their canonical forms, the
  upper-case ones, are equal. Only \<^verbatim>\<open>a\<close> to \<^verbatim>\<open>z\<close> are changed here: the
  characters outside ASCII that the language would also change keep a canonical form
  outside ASCII, so comparing them with an ASCII pattern character gives the same
  answer.
\<close>

definition canonicalize :: "bool \<Rightarrow> char \<Rightarrow> char" where
  "canonicalize ic c =
    (if ic \<and> 97 \<le> (of_char c :: nat) \<and> (of_char c :: nat) \<le> 122
     then char_of (of_char c - 32 :: nat) else c)"

text \<open>
  The backtracking matcher: \<open>rmatch ic r s\<close> lists, in the order the matcher tries
  them, the rest of the input after each way in which \<open>r\<close> matches a prefix of
  \<open>s\<close>.
\<close>

fun rmatch :: "bool \<Rightarrow> regex \<Rightarrow> string \<Rightarrow> string list" where
  "rmatch ic (Chr c) [] = []"
| "rmatch ic (Chr c) (x # xs) = (if canonicalize ic x = canonicalize ic c then [xs] else [])"
| "rmatch ic (Seq r1 r2) s = concat (map (rmatch ic r2) (rmatch ic r1 s))"
| "rmatch ic (Alt r1 r2) s = rmatch ic r1 s @ rmatch ic r2 s"
| "rmatch ic (Opt r) s = rmatch ic r s @ [s]"
| "rmatch ic EndOfInput s = (if s = [] then [[]] else [])"

text \<open>
  \<^verbatim>\<open>re.test(s)\<close> of a pattern without the global and sticky flags tries every start
  index from the left, the end of the input included.
\<close>

fun exec_from :: "RegExp \<Rightarrow> string \<Rightarrow> bool" where
  "exec_from re [] = (rmatch (ignoreCase re) (source re) [] \<noteq> [])"
| "exec_from re (x # xs) =
     (rmatch (ignoreCase re) (source re) (x # xs) \<noteq> [] \<or> exec_from re xs)"

definition RegExp_test :: "RegExp \<Rightarrow> string \<Rightarrow> bool" where
  "RegExp_test re s = exec_from re s"

section \<open>The build configuration\<close>

text \<open>
  The types of the plugin and of the framework are declared outside the repository.
  The records below list the properties that the object literals of the configuration
  set; the types of which the configuration holds no value are left unspecified.
\<close>

typedecl Pluggable

typedecl RemotePattern

record MDXOptions =
  remarkPlugins :: "Pluggable list"
  rehypePlugins :: "Pluggable list"
  providerImportSource :: string

record CreateMDXOptions =
  options :: MDXOptions

record ImagesConfig =
  remotePatterns :: "RemotePattern list"
  unoptimized :: bool
  dangerouslyAllowSVG :: bool
  contentDispositionType :: string
  contentSecurityPolicy :: string

record Generator =
  filename :: string

record RuleSetRule =
  test :: RegExp
  type :: string
  generator :: Generator

record ModuleOptions =
  rules :: "RuleSetRule list"

record WebpackConfig =
  module :: ModuleOptions

record NextConfig =
  reactStrictMode :: bool
  images :: ImagesConfig
  webpack :: "WebpackConfig \<Rightarrow> WebpackConfig"

text \<open>The literal \<^verbatim>\<open>/\.(png|jpe?g|gif|svg)$/i\<close> of the asset rule.\<close>

definition asset_pattern :: RegExp where
  "asset_pattern =
    \<lparr>source =
       Seq (Chr CHR ''.'')
        (Seq (Alt (Seq (Chr CHR ''p'') (Seq (Chr CHR ''n'') (Chr CHR ''g'')))
             (Alt (Seq (Chr CHR ''j'') (Seq (Chr CHR ''p'')
                     (Seq (Opt (Chr CHR ''e'')) (Chr CHR ''g''))))
             (Alt (Seq (Chr CHR ''g'') (Seq (Chr CHR ''i'') (Chr CHR ''f'')))
                  (Seq (Chr CHR ''s'') (Seq (Chr CHR ''v'') (Chr CHR ''g''))))))
          EndOfInput),
     ignoreCase = True\<rparr>"

text \<open>
  \<^verbatim>\<open>const config = { reactStrictMode, images, webpack }\<close>. The \<^verbatim>\<open>webpack\<close>
  hook pushes one rule onto \<^verbatim>\<open>config.module.rules\<close> of the bundler configuration
  it is given and returns that configuration; the mutation is the returned record.
\<close>

definition config :: NextConfig where
  "config =
    \<lparr>reactStrictMode = True,
     images =
       \<lparr>remotePatterns = [],
        unoptimized = True,
        dangerouslyAllowSVG = True,
        contentDispositionType = ''attachment'',
        contentSecurityPolicy = ''default-src 'self'; script-src 'none'; sandbox;''\<rparr>,
     webpack = (\<lambda>config.
       config\<lparr>module := (module config)\<lparr>rules := rules (module config) @
         [\<lparr>test = asset_pattern,
           type = ''asset/resource'',
           generator = \<lparr>filename = ''static/media/[name].[hash][ext]''\<rparr>\<rparr>]\<rparr>\<rparr>)\<rparr>"

text \<open>
  \<^verbatim>\<open>const withMDX = createMDX({ options: {...} })\<close> and
  \<^verbatim>\<open>export default withMDX(config)\<close>. The function \<^verbatim>\<open>createMDX\<close> comes from
  the plugin \<^verbatim>\<open>fumadocs-mdx/next\<close>; it is a parameter here, and so is the type
  \<open>'c\<close> of what the plugin returns.
\<close>

definition withMDX :: "(CreateMDXOptions \<Rightarrow> NextConfig \<Rightarrow> 'c) \<Rightarrow> NextConfig \<Rightarrow> 'c" where
  "withMDX createMDX =
     createMDX \<lparr>options = \<lparr>remarkPlugins = [], rehypePlugins = [],
                             providerImportSource = ''fumadocs-ui/mdx''\<rparr>\<rparr>"

definition default_export :: "(CreateMDXOptions \<Rightarrow> NextConfig \<Rightarrow> 'c) \<Rightarrow> 'c" where
  "default_export createMDX = withMDX createMDX config"


text \<open>
  How the bundler reads a rule of type \<^verbatim>\<open>asset/resource\<close> (the bundler is not
  part of the repository): a file whose path satisfies \<^verbatim>\<open>test\<close> is emitted under
  the rule's \<^verbatim>\<open>generator.filename\<close> pattern, and the rule says nothing about
  any other file.
\<close>

definition rule_output :: "RuleSetRule \<Rightarrow> string \<Rightarrow> string option" where
  "rule_output r file =
     (if RegExp_test (test r) file then Some (filename (generator r)) else None)"

section \<open>The layout configuration\<close>

text \<open>
  Modelled from the spec: \<^verbatim>\<open>BaseLayoutProps\<close> is declared by the package
  \<^verbatim>\<open>fumadocs-ui/layouts/shared\<close>, outside the repository. The spec describes it as
  a navigation/layout configuration object with a site title, a logo image and optional
  navigation links; the records have the two properties the source file mentions,
  \<^verbatim>\<open>nav\<close> (with its \<^verbatim>\<open>title\<close>) and \<^verbatim>\<open>links\<close>, each optional. The type of
  a link is left unspecified.
\<close>

typedecl LinkItemType

record 'n NavOptions =
  title :: "'n node option"

record 'n BaseLayoutProps =
  nav :: "'n NavOptions option"
  links :: "LinkItemType list option"

text \<open>
  \<^verbatim>\<open>export const baseOptions: BaseLayoutProps = { nav: { title: (<>...</>) } }\<close>. The
  fragment has two children: the comment \<^verbatim>\<open>{/* ... */}\<close> is an empty expression
  and gives none, and the text is trimmed of the line breaks and the indentation around
  it. The \<^verbatim>\<open>links\<close> property is written only inside a comment.
\<close>

definition baseOptions :: "('n::numeral) BaseLayoutProps" where
  "baseOptions =
    \<lparr>nav = Some
       \<lparr>title = Some
          (Element Fragment []
             [Element NextImage
                [(''src'', Str ''/docs/images/common/john-paul.jpg''),
                 (''alt'', Str ''Logo''),
                 (''width'', Num 32),
                 (''height'', Num 32),
                 (''className'', Str ''rounded-full'')]
                [],
              Text ''John Paul's Portfolio''])\<rparr>,
     links = None\<rparr>"

section \<open>The content documents\<close>

text \<open>
  A content document starts with a front-matter block: the lines \<^verbatim>\<open>key: value\<close>
  between two lines \<^verbatim>\<open>---\<close>. A document is the file it comes from and the
  key/value pairs of its block, as written.
\<close>

record ContentDocument =
  source_file :: string
  frontmatter :: "(string \<times> string) list"

definition doc_title :: "ContentDocument \<Rightarrow> string option" where
  "doc_title d = map_of (frontmatter d) ''title''"

definition doc_description :: "ContentDocument \<Rightarrow> string option" where
  "doc_description d = map_of (frontmatter d) ''description''"

text \<open>
  The four front-matter blocks of the content files: one at the head of the unnamed
  document \<^verbatim>\<open>part_001\<close> and three in \<^verbatim>\<open>finance-tracker.mdx\<close> (lines 1, 212 and 471), each
  followed by its own import of the Image wrapper.
\<close>

definition portfolio_blog :: ContentDocument where
  "portfolio_blog =
    \<lparr>source_file = ''unnamed/part_001'',
     frontmatter =
       [(''title'', ''Portfolio Blog''),
        (''description'', ''A portfolio website and blog for my portfolio'')]\<rparr>"

definition finance_tracker :: ContentDocument where
  "finance_tracker =
    \<lparr>source_file = ''content/docs/(projects)/finance-tracker.mdx'',
     frontmatter =
       [(''title'', ''Finance Tracker''),
        (''description'', ''A finance tracker using Hono API, Next.js, and PostgreSQL'')]\<rparr>"

definition gig_canvas :: ContentDocument where
  "gig_canvas =
    \<lparr>source_file = ''content/docs/(projects)/finance-tracker.mdx'',
     frontmatter =
       [(''title'', ''CRM Gig Canvas''),
        (''description'', ''Gig Canvas is a CRM for the Gig Economy'')]\<rparr>"

definition ai_pdf_summariser :: ContentDocument where
  "ai_pdf_summariser =
    \<lparr>source_file = ''content/docs/(projects)/finance-tracker.mdx'',
     frontmatter =
       [(''title'', ''AI PDF Summariser SaaS''),
        (''description'',
         ''Summit is a SaaS web application that allows users to upload PDF documents and receive AI-generated, concise summaries.'')]\<rparr>"

definition content_documents :: "ContentDocument list" where
  "content_documents = [portfolio_blog, finance_tracker, gig_canvas, ai_pdf_summariser]"

section \<open>Calls and errors\<close>






section \<open>What the specification says of the asset rule\<close>

text \<open>
  A file name ends in one of the five extensions, compared without regard to case: its
  lower-cased form has one of them as a suffix.
\<close>

definition ascii_lower :: "char \<Rightarrow> char" where
  "ascii_lower c =
    (if 65 \<le> (of_char c :: nat) \<and> (of_char c :: nat) \<le> 90
     then char_of (of_char c + 32 :: nat) else c)"

definition image_extensions :: "string list" where
  "image_extensions = [''.png'', ''.jpg'', ''.jpeg'', ''.gif'', ''.svg'']"

definition has_image_extension :: "string \<Rightarrow> bool" where
  "has_image_extension file = (\<exists>e \<in> set image_extensions. suffix e (map ascii_lower file))"

section \<open>Properties of the Image wrapper\<close>

text \<open>
  C1. Whatever props the wrapper is called with, it renders exactly one
  \<^verbatim>\<open>next/image\<close> element (inside its container), and that element receives the
  source and the alt text of the props unchanged, and every dimension the props give,
  unchanged.
\<close>

theorem Image_forwards_props:
  "\<exists>img. children (Image props) = [img] \<and> etype img = Some NextImage \<and>
     attr img ''src'' = Some (Str (src props)) \<and>
     attr img ''alt'' = Some (Str (alt props)) \<and>
     (\<forall>w. width props = Some w \<longrightarrow> attr img ''width'' = Some (Num w)) \<and>
     (\<forall>h. height props = Some h \<longrightarrow> attr img ''height'' = Some (Num h))"
  by (simp add: Image_def attr_def Let_def)

theorem Image_forwards_props_witness:
  "\<exists>img. children (Image \<lparr>src = ''/docs/images/gig-canvas/gigcanvas-dm.jpg'',
                            alt = ''Gig Canvas Architecture'',
                            width = Some (1000::int), height = Some 530\<rparr>) = [img] \<and>
     etype img = Some NextImage \<and>
     attr img ''src'' = Some (Str ''/docs/images/gig-canvas/gigcanvas-dm.jpg'') \<and>
     attr img ''alt'' = Some (Str ''Gig Canvas Architecture'') \<and>
     attr img ''width'' = Some (Num 1000) \<and>
     attr img ''height'' = Some (Num 530)"
  using Image_forwards_props
    [of "\<lparr>src = ''/docs/images/gig-canvas/gigcanvas-dm.jpg'',
          alt = ''Gig Canvas Architecture'',
          width = Some (1000::int), height = Some 530\<rparr>"]
  by simp

text \<open>
  C9. An omitted width is rendered as 800 and an omitted height as 600. In every case
  the result is a \<^verbatim>\<open>div\<close> styled \<^verbatim>\<open>width: 100%; maxWidth: 800px\<close> whose only
  child is the image element, styled \<^verbatim>\<open>width: 100%; height: auto\<close> and carrying
  the \<^verbatim>\<open>priority\<close> flag.
\<close>

theorem Image_defaults_and_container:
  "\<exists>img. Image props =
       Element (Host ''div'')
         [(''style'', Style [(''width'', ''100%''), (''maxWidth'', ''800px'')])] [img] \<and>
     etype img = Some NextImage \<and>
     (width props = None \<longrightarrow> attr img ''width'' = Some (Num 800)) \<and>
     (height props = None \<longrightarrow> attr img ''height'' = Some (Num 600)) \<and>
     attr img ''style'' = Some (Style [(''width'', ''100%''), (''height'', ''auto'')]) \<and>
     attr img ''priority'' = Some (Flag True)"
  by (simp add: Image_def attr_def Let_def)

theorem Image_defaults_and_container_witness:
  "\<exists>img. Image \<lparr>src = ''/a.png'', alt = ''a'', width = None, height = None\<rparr> =
       Element (Host ''div'')
         [(''style'', Style [(''width'', ''100%''), (''maxWidth'', ''800px'')])] [img] \<and>
     etype img = Some NextImage \<and>
     attr img ''width'' = Some (Num (800::int)) \<and>
     attr img ''height'' = Some (Num 600) \<and>
     attr img ''style'' = Some (Style [(''width'', ''100%''), (''height'', ''auto'')]) \<and>
     attr img ''priority'' = Some (Flag True)"
  using Image_defaults_and_container
    [of "\<lparr>src = ''/a.png'', alt = ''a'', width = None, height = None\<rparr>"]
  by simp

section \<open>Properties of the build configuration\<close>



text \<open>
  C6. The default export is the configuration object wrapped by the MDX plugin, and the
  plugin is created with empty lists of remark and rehype plugins and the provider
  import source \<^verbatim>\<open>fumadocs-ui/mdx\<close>, whatever function the plugin package supplies.
\<close>

theorem default_export_wraps_config:
  "default_export createMDX =
     createMDX \<lparr>options = \<lparr>remarkPlugins = [], rehypePlugins = [],
                             providerImportSource = ''fumadocs-ui/mdx''\<rparr>\<rparr> config"
  by (simp add: default_export_def withMDX_def)

subsection \<open>The pattern of the asset rule\<close>

lemma of_char_below_256: "(of_char c :: nat) < 256"
  by (cases c) simp

lemma of_char_canonicalize:
  "(of_char (canonicalize True x) :: nat) =
     (if 97 \<le> (of_char x :: nat) \<and> (of_char x :: nat) \<le> 122
      then of_char x - 32 else of_char x)"
proof -
  have "(of_char x - 32 :: nat) < 256"
    using of_char_below_256 [of x] by arith
  then show ?thesis
    by (simp add: canonicalize_def)
qed

lemma of_char_ascii_lower:
  "(of_char (ascii_lower x) :: nat) =
     (if 65 \<le> (of_char x :: nat) \<and> (of_char x :: nat) \<le> 90
      then of_char x + 32 else of_char x)"
  by (simp add: ascii_lower_def)

text \<open>
  Against a pattern character that is a lower-case letter or lies below the letters,
  matching under the \<^verbatim>\<open>i\<close> flag is equality after lower-casing the input.
\<close>

lemma canonicalize_eq_iff:
  assumes "97 \<le> (of_char c :: nat) \<and> (of_char c :: nat) \<le> 122 \<or> (of_char c :: nat) < 65"
  shows "(canonicalize True x = canonicalize True c) = (ascii_lower x = c)"
proof -
  define n m :: nat where "n = of_char x" and "m = of_char c"
  have c: "97 \<le> m \<and> m \<le> 122 \<or> m < 65"
    using assms by (simp add: m_def)
  have "(canonicalize True x = canonicalize True c) =
        ((of_char (canonicalize True x) :: nat) = of_char (canonicalize True c))"
    by simp
  also have "\<dots> = ((if 97 \<le> n \<and> n \<le> 122 then n - 32 else n) =
                    (if 97 \<le> m \<and> m \<le> 122 then m - 32 else m))"
    unfolding of_char_canonicalize n_def m_def ..
  also have "\<dots> = ((if 65 \<le> n \<and> n \<le> 90 then n + 32 else n) = m)"
    using c by (auto split: if_splits)
  also have "\<dots> = ((of_char (ascii_lower x) :: nat) = of_char c)"
    unfolding of_char_ascii_lower n_def m_def ..
  also have "\<dots> = (ascii_lower x = c)"
    by simp
  finally show ?thesis .
qed

text \<open>When a pattern consumes the whole input: the empty rest is among the results.\<close>

lemma whole_Chr:
  "[] \<in> set (rmatch ic (Chr c) s) \<longleftrightarrow>
     (\<exists>x. s = [x] \<and> canonicalize ic x = canonicalize ic c)"
  by (cases s) auto

lemma whole_Seq_Chr:
  "[] \<in> set (rmatch ic (Seq (Chr c) r) s) \<longleftrightarrow>
     (\<exists>x xs. s = x # xs \<and> canonicalize ic x = canonicalize ic c \<and>
        [] \<in> set (rmatch ic r xs))"
  by (cases s) auto

lemma whole_Alt:
  "[] \<in> set (rmatch ic (Alt r1 r2) s) \<longleftrightarrow>
     [] \<in> set (rmatch ic r1 s) \<or> [] \<in> set (rmatch ic r2 s)"
  by simp

lemma whole_Seq_Opt:
  "[] \<in> set (rmatch ic (Seq (Opt r1) r2) s) \<longleftrightarrow>
     [] \<in> set (rmatch ic (Seq r1 r2) s) \<or> [] \<in> set (rmatch ic r2 s)"
  by auto

lemma some_Seq_Chr:
  "rmatch ic (Seq (Chr c) r) s \<noteq> [] \<longleftrightarrow>
     (\<exists>x xs. s = x # xs \<and> canonicalize ic x = canonicalize ic c \<and> rmatch ic r xs \<noteq> [])"
  by (cases s) auto

lemma some_Seq_EndOfInput:
  "rmatch ic (Seq r EndOfInput) s \<noteq> [] \<longleftrightarrow> [] \<in> set (rmatch ic r s)"
  by (auto simp: concat_eq_Nil_conv)

lemma asset_pattern_at_start_chars:
  "rmatch True (source asset_pattern) t \<noteq> [] \<longleftrightarrow>
     (\<exists>x0 xs. t = x0 # xs \<and> ascii_lower x0 = CHR ''.'' \<and>
        map ascii_lower xs \<in> {''png'', ''jpg'', ''jpeg'', ''gif'', ''svg''})"
  unfolding asset_pattern_def RegExp.simps
    some_Seq_Chr some_Seq_EndOfInput whole_Alt whole_Seq_Chr whole_Seq_Opt whole_Chr
  by (simp add: canonicalize_eq_iff) auto

lemma asset_pattern_at_start:
  "rmatch True (source asset_pattern) t \<noteq> [] \<longleftrightarrow>
     map ascii_lower t \<in> set image_extensions"
  unfolding asset_pattern_at_start_chars image_extensions_def
  by (cases t) auto

lemma exec_from_iff_suffix:
  "exec_from re s \<longleftrightarrow> (\<exists>t. suffix t s \<and> rmatch (ignoreCase re) (source re) t \<noteq> [])"
proof (induction s)
  case Nil
  show ?case by simp
next
  case (Cons x xs)
  show ?case
    unfolding exec_from.simps Cons.IH suffix_Cons by blast
qed

lemma suffix_of_map:
  "suffix e (map f s) \<longleftrightarrow> (\<exists>t. suffix t s \<and> map f t = e)"
proof
  assume "suffix e (map f s)"
  then obtain zs where "map f s = zs @ e"
    by (auto simp: suffix_def)
  then obtain us vs where "s = us @ vs" "map f vs = e"
    by (auto simp: map_eq_append_conv)
  then show "\<exists>t. suffix t s \<and> map f t = e"
    by (auto simp: suffix_def)
next
  assume "\<exists>t. suffix t s \<and> map f t = e"
  then show "suffix e (map f s)"
    by (auto simp: suffix_def)
qed

lemma asset_pattern_test:
  "RegExp_test asset_pattern file \<longleftrightarrow> has_image_extension file"
proof -
  have "RegExp_test asset_pattern file \<longleftrightarrow>
        (\<exists>t. suffix t file \<and> rmatch True (source asset_pattern) t \<noteq> [])"
    unfolding RegExp_test_def exec_from_iff_suffix
    by (simp add: asset_pattern_def)
  also have "\<dots> \<longleftrightarrow> (\<exists>t. suffix t file \<and> map ascii_lower t \<in> set image_extensions)"
    unfolding asset_pattern_at_start ..
  also have "\<dots> \<longleftrightarrow> has_image_extension file"
    unfolding has_image_extension_def suffix_of_map by blast
  finally show ?thesis .
qed

text \<open>
  C3. The \<^verbatim>\<open>webpack\<close> hook adds exactly one rule at the end of the rules of the
  bundler configuration. That rule gives a file the output pattern
  \<^verbatim>\<open>static/media/[name].[hash][ext]\<close> if the file's name ends in \<^verbatim>\<open>.png\<close>,
  \<^verbatim>\<open>.jpg\<close>, \<^verbatim>\<open>.jpeg\<close>, \<^verbatim>\<open>.gif\<close> or \<^verbatim>\<open>.svg\<close>, in any mix of upper and
  lower case, and gives it nothing otherwise.
\<close>

theorem asset_rule_image_files:
  "\<exists>r. rules (module (webpack config wc)) = rules (module wc) @ [r] \<and>
     (\<forall>file. rule_output r file =
        (if has_image_extension file then Some ''static/media/[name].[hash][ext]''
         else None))"
  by (simp add: config_def rule_output_def asset_pattern_test)

theorem asset_rule_image_files_witness:
  "has_image_extension ''a/Logo.SVG'' \<and> \<not> has_image_extension ''a/logo.svg.txt'' \<and>
   (\<exists>r. rules (module (webpack config \<lparr>module = \<lparr>rules = []\<rparr>\<rparr>)) = [r] \<and>
      rule_output r ''a/Logo.SVG'' = Some ''static/media/[name].[hash][ext]'' \<and>
      rule_output r ''a/logo.svg.txt'' = None)"
proof -
  have yes: "has_image_extension ''a/Logo.SVG''"
    unfolding has_image_extension_def image_extensions_def by code_simp
  have no: "\<not> has_image_extension ''a/logo.svg.txt''"
    unfolding has_image_extension_def image_extensions_def by code_simp
  from asset_rule_image_files [of "\<lparr>module = \<lparr>rules = []\<rparr>\<rparr>"]
  obtain r where r: "rules (module (webpack config \<lparr>module = \<lparr>rules = []\<rparr>\<rparr>)) = [r]"
    and out: "\<And>file. rule_output r file =
        (if has_image_extension file then Some ''static/media/[name].[hash][ext]''
         else None)"
    by auto
  from out [of "''a/Logo.SVG''"] out [of "''a/logo.svg.txt''"] yes no r
  show ?thesis by simp
qed

section \<open>Properties of the layout configuration\<close>

text \<open>
  C5. The nav title of the layout configuration is a fragment of a logo image, with
  source \<^verbatim>\<open>/docs/images/common/john-paul.jpg\<close>, width 32 and height 32, followed
  by the text \<^verbatim>\<open>John Paul's Portfolio\<close>.
\<close>

theorem baseOptions_nav_title:
  "\<exists>n logo. nav (baseOptions :: ('n::numeral) BaseLayoutProps) = Some n \<and>
     title n = Some (Element Fragment [] [logo, Text ''John Paul's Portfolio'']) \<and>
     etype logo = Some NextImage \<and>
     attr logo ''src'' = Some (Str ''/docs/images/common/john-paul.jpg'') \<and>
     attr logo ''width'' = Some (Num 32) \<and>
     attr logo ''height'' = Some (Num 32)"
  by (simp add: baseOptions_def attr_def)

text \<open>
  C10. The layout configuration has no \<^verbatim>\<open>links\<close> property; what it sets is the
  nav with its title.
\<close>

theorem baseOptions_no_links:
  "links (baseOptions :: ('n::numeral) BaseLayoutProps) = None \<and>
   (\<exists>n t. nav (baseOptions :: 'n BaseLayoutProps) = Some n \<and> title n = Some t)"
  by (simp add: baseOptions_def)

section \<open>Properties of the content documents\<close>

text \<open>
  C4. Every content document has a title and a description in its front-matter, and
  neither is empty.
\<close>

theorem content_documents_frontmatter:
  "\<forall>d \<in> set content_documents.
     \<exists>t ds. doc_title d = Some t \<and> t \<noteq> [] \<and> doc_description d = Some ds \<and> ds \<noteq> []"
  by (simp add: content_documents_def doc_title_def doc_description_def
      portfolio_blog_def finance_tracker_def gig_canvas_def ai_pdf_summariser_def)

theorem content_documents_frontmatter_witness:
  "gig_canvas \<in> set content_documents \<and>
   (\<exists>t ds. doc_title gig_canvas = Some t \<and> t \<noteq> [] \<and>
      doc_description gig_canvas = Some ds \<and> ds \<noteq> [])"
proof -
  have m: "gig_canvas \<in> set content_documents"
    by (simp add: content_documents_def)
  from m content_documents_frontmatter [rule_format, OF m]
  show ?thesis by blast
qed

section \<open>Errors of the wrapper and of the hook\<close>




end
